theory Spec2Isabelle
  imports Main "HOL-Library.Word"
begin

section \<open>The harness state\<close>

text \<open>
  The harness of \<^verbatim>\<open>sim_main.cpp\<close> drives a Verilated counter through its three input
  ports and hands every half clock period to a VCD recorder.

  Modelled from the spec: the header \<^verbatim>\<open>Vcounter.h\<close> is generated and not part of the
  sources; the design exposes three settable integer inputs \<^verbatim>\<open>clk\<close>, \<^verbatim>\<open>rst\<close> and
  \<^verbatim>\<open>en\<close>. One-bit ports are bytes in a Verilated model, so each is an \<open>8 word\<close>.
\<close>

record Vcounter =
  clk :: "8 word"
  rst :: "8 word"
  en :: "8 word"

text \<open>
  The device and the recorder are black boxes. What the harness does to them is kept as
  the chronological list of its calls:
  \<^item> \<open>Eval d\<close>: \<^verbatim>\<open>top->eval()\<close>, with the input values \<open>d\<close> the model holds at that
    moment;
  \<^item> \<open>Dump t d\<close>: \<^verbatim>\<open>tfp->dump(t)\<close>, with the input values \<open>d\<close> the snapshot captures;
  \<^item> \<open>Trace n\<close>: \<^verbatim>\<open>top->trace(tfp, n)\<close>;
  \<^item> \<open>Open path ok\<close>: \<^verbatim>\<open>tfp->open(path)\<close>, and whether the file could be opened;
  \<^item> \<open>Cerr msg\<close>: \<open>msg\<close> written to \<^verbatim>\<open>std::cerr\<close>;
  \<^item> \<open>Close\<close> and \<open>Final\<close>: \<^verbatim>\<open>tfp->close()\<close> and \<^verbatim>\<open>top->final()\<close>.

  The outputs of a deterministic device are a function of the \<open>Eval\<close> entries before a
  \<open>Dump\<close>, so a snapshot is determined by the list up to it. \<open>Call_tick\<close> and
  \<open>Call_reset cycles\<close> mark the entry into the two sequencer functions, so that their
  invocations can be counted.
\<close>

datatype event =
    Call_tick
  | Call_reset int
  | Eval Vcounter
  | Dump "64 word" Vcounter
  | Trace int
  | Open string bool
  | Cerr string
  | Close
  | Final

text \<open>
  \<open>dut\<close> is the object behind the pointer \<^verbatim>\<open>top\<close>; \<open>main_time\<close> is the global
  \<^verbatim>\<open>vluint64_t main_time\<close>.
\<close>

record harness =
  dut :: Vcounter
  main_time :: "64 word"
  events :: "event list"

section \<open>Primitive statements\<close>

definition log :: "event \<Rightarrow> harness \<Rightarrow> harness" where
  "log e s = s\<lparr>events := events s @ [e]\<rparr>"

text \<open>\<^verbatim>\<open>top->clk = v\<close>, \<^verbatim>\<open>top->rst = v\<close>, \<^verbatim>\<open>top->en = v\<close>: plain stores to a field.\<close>

definition set_clk :: "8 word \<Rightarrow> harness \<Rightarrow> harness" where
  "set_clk v s = s\<lparr>dut := (dut s)\<lparr>clk := v\<rparr>\<rparr>"

definition set_rst :: "8 word \<Rightarrow> harness \<Rightarrow> harness" where
  "set_rst v s = s\<lparr>dut := (dut s)\<lparr>rst := v\<rparr>\<rparr>"

definition set_en :: "8 word \<Rightarrow> harness \<Rightarrow> harness" where
  "set_en v s = s\<lparr>dut := (dut s)\<lparr>en := v\<rparr>\<rparr>"

text \<open>\<^verbatim>\<open>top->eval()\<close>\<close>

definition eval_top :: "harness \<Rightarrow> harness" where
  "eval_top s = log (Eval (dut s)) s"

text \<open>\<^verbatim>\<open>tfp->dump(main_time++)\<close>: the old value is passed, then the counter is bumped.\<close>

definition dump_time :: "harness \<Rightarrow> harness" where
  "dump_time s = (log (Dump (main_time s) (dut s)) s)\<lparr>main_time := main_time s + 1\<rparr>"

text \<open>
  \<^verbatim>\<open>if (tfp) tfp->dump(main_time++)\<close>: the pointer \<^verbatim>\<open>tfp\<close> is modelled by the
  truth value of the test, \<open>True\<close> for a recorder and \<open>False\<close> for a null pointer.
\<close>

definition dump_if :: "bool \<Rightarrow> harness \<Rightarrow> harness" where
  "dump_if tfp s = (if tfp then dump_time s else s)"

section \<open>The clock sequencer\<close>

text \<open>
  \<^verbatim>\<open>
  static void tick(Vcounter* top, VerilatedVcdC* tfp) {
      top->clk = 0; top->eval(); if (tfp) tfp->dump(main_time++);
      top->clk = 1; top->eval(); if (tfp) tfp->dump(main_time++);
  }
  \<close>
\<close>

definition tick :: "bool \<Rightarrow> harness \<Rightarrow> harness" where
  "tick tfp s0 =
     (let s1 = log Call_tick s0;
          s2 = dump_if tfp (eval_top (set_clk 0 s1));
          s3 = dump_if tfp (eval_top (set_clk 1 s2))
      in s3)"

text \<open>
  \<^verbatim>\<open>for (int i = 0; i < n; ++i) tick(top, tfp);\<close>
  The counter stays below \<open>n\<close>, so the 32-bit \<^verbatim>\<open>int\<close> never overflows and is an
  \<open>int\<close> here.
\<close>

function for_tick :: "int \<Rightarrow> int \<Rightarrow> bool \<Rightarrow> harness \<Rightarrow> harness" where
  "for_tick i n tfp s = (if i < n then for_tick (i + 1) n tfp (tick tfp s) else s)"
  by pat_completeness auto
termination
  by (relation "measure (\<lambda>(i, n, tfp, s). nat (n - i))") auto

declare for_tick.simps [simp del]

text \<open>
  \<^verbatim>\<open>
  static void reset(Vcounter* top, VerilatedVcdC* tfp, int cycles) {
      top->rst = 1; top->eval(); if (tfp) tfp->dump(main_time++);
      for (int i = 0; i < cycles; ++i) tick(top, tfp);
      top->rst = 0; top->eval(); if (tfp) tfp->dump(main_time++);
  }
  \<close>
\<close>

definition reset :: "bool \<Rightarrow> int \<Rightarrow> harness \<Rightarrow> harness" where
  "reset tfp cycles s0 =
     (let s1 = log (Call_reset cycles) s0;
          s2 = dump_if tfp (eval_top (set_rst 1 s1));
          s3 = for_tick 0 cycles tfp s2;
          s4 = dump_if tfp (eval_top (set_rst 0 s3))
      in s4)"

section \<open>The scenario dispatcher\<close>

text \<open>
  Line 38 of \<^verbatim>\<open>main\<close>, the baseline:
  \<^verbatim>\<open>top->clk = 0; top->rst = 0; top->en = 0; top->eval(); tfp->dump(main_time++);\<close>
\<close>

definition init :: "harness \<Rightarrow> harness" where
  "init s = dump_time (eval_top (set_en 0 (set_rst 0 (set_clk 0 s))))"

text \<open>
  Lines 40 to 81 of \<^verbatim>\<open>main\<close>: the chain of string comparisons and the six scripts.
  \<^verbatim>\<open>tfp\<close> is the recorder made by \<^verbatim>\<open>new\<close>, never null, so every call passes
  \<open>True\<close>.
\<close>

definition run_test :: "string \<Rightarrow> harness \<Rightarrow> harness" where
  "run_test test s0 =
     (if test = ''basic_counting'' then
        (let s = reset True 1 s0;
             s = set_en 1 s;
             s = for_tick 0 20 True s;
             s = set_en 0 s;
             s = for_tick 0 5 True s
         in s)
      else if test = ''hold_when_disabled'' then
        (let s = reset True 1 s0;
             s = set_en 1 s;
             s = for_tick 0 5 True s;
             s = set_en 0 s;
             s = for_tick 0 10 True s;
             s = set_en 1 s;
             s = for_tick 0 5 True s
         in s)
      else if test = ''reset_behavior'' then
        (let s = set_en 1 s0;
             s = reset True 2 s;
             s = for_tick 0 5 True s;
             s = set_en 0 s;
             s = reset True 1 s;
             s = for_tick 0 5 True s
         in s)
      else if test = ''rst_over_en_priority'' then
        (let s = reset True 1 s0;
             s = set_en 1 s;
             s = for_tick 0 5 True s;
             s = set_rst 1 s;
             s = for_tick 0 4 True s;
             s = set_rst 0 s;
             s = for_tick 0 6 True s
         in s)
      else if test = ''wraparound'' then
        (let s = reset True 1 s0;
             s = set_en 1 s;
             s = for_tick 0 254 True s;
             s = for_tick 0 4 True s;
             s = set_en 0 s;
             s = for_tick 0 4 True s
         in s)
      else if test = ''mid_stream_reset'' then
        (let s = reset True 1 s0;
             s = set_en 1 s;
             s = for_tick 0 8 True s;
             s = set_rst 1 s;
             s = tick True s;
             s = set_rst 0 s;
             s = for_tick 0 8 True s
         in s)
      else log (Cerr (''Unknown test: '' @ test @ [CHR 0x0A])) s0)"

text \<open>
  Lines 28 and 29 of \<^verbatim>\<open>main\<close>: the two optional arguments. \<open>argv\<close> is the argument
  vector with the program name first, \<open>length argv\<close> is \<^verbatim>\<open>argc\<close>.
  \<^verbatim>\<open>
  std::string test = argc > 1 ? std::string(argv[1]) : std::string("basic_counting");
  std::string vcd_path = argc > 2 ? std::string(argv[2]) : std::string("waves.vcd");
  \<close>
\<close>

definition test_arg :: "string list \<Rightarrow> string" where
  "test_arg argv = (if length argv > 1 then argv ! 1 else ''basic_counting'')"

definition vcd_path_arg :: "string list \<Rightarrow> string" where
  "vcd_path_arg argv = (if length argv > 2 then argv ! 2 else ''waves.vcd'')"

text \<open>
  Lines 31 to 35: the model and the recorder are constructed, the recorder is attached
  with depth 99 and told to open the file. \<open>top0\<close> holds the input values of the freshly
  constructed model, \<open>open_ok\<close> says whether the recorder could open the file:
  \<^verbatim>\<open>open\<close> returns nothing and \<^verbatim>\<open>main\<close> never asks \<^verbatim>\<open>isOpen()\<close>, so the
  outcome is only written into the call list. \<^verbatim>\<open>main_time\<close> starts at its static
  initial value 0. The two calls before (lines 25 and 26) configure the Verilator
  runtime and touch neither the model nor the recorder; they are left out.
\<close>

definition construct :: "Vcounter \<Rightarrow> string \<Rightarrow> bool \<Rightarrow> harness" where
  "construct top0 vcd_path open_ok =
     log (Open vcd_path open_ok) (log (Trace 99) \<lparr>dut = top0, main_time = 0, events = []\<rparr>)"

text \<open>
  \<^verbatim>\<open>int main(int argc, char** argv)\<close>: set-up, baseline, the selected script,
  \<^verbatim>\<open>tfp->close()\<close>, \<^verbatim>\<open>top->final()\<close>, \<^verbatim>\<open>return 0\<close>. The result is the exit
  status and the final state.
\<close>

definition main :: "string list \<Rightarrow> Vcounter \<Rightarrow> bool \<Rightarrow> int \<times> harness" where
  "main argv top0 open_ok =
     (let test = test_arg argv;
          vcd_path = vcd_path_arg argv;
          s = construct top0 vcd_path open_ok;
          s = init s;
          s = run_test test s;
          s = log Close s;
          s = log Final s
      in (0, s))"

section \<open>The scenario table of the specification\<close>

text \<open>
  The specification describes a scenario as an ordered sequence of primitive operations
  \<^verbatim>\<open>setInput(name, value)\<close>, \<^verbatim>\<open>tick(count)\<close> and \<^verbatim>\<open>reset(cycles)\<close>, and lists the
  six built-in scripts in a table. \<open>spec_table\<close> is that table, row by row in the
  specification's words, and \<open>run_script\<close> executes a script with the sequencer of the
  code. It is the second definition that \<open>run_test\<close> is compared with.
\<close>

datatype op = SetInput string "8 word" | Tick nat | Reset int

fun run_op :: "bool \<Rightarrow> op \<Rightarrow> harness \<Rightarrow> harness" where
  "run_op tfp (SetInput name v) s =
     (if name = ''en'' then set_en v s
      else if name = ''rst'' then set_rst v s
      else if name = ''clk'' then set_clk v s
      else s)"
| "run_op tfp (Tick n) s = (tick tfp ^^ n) s"
| "run_op tfp (Reset cycles) s = reset tfp cycles s"

definition run_script :: "bool \<Rightarrow> op list \<Rightarrow> harness \<Rightarrow> harness" where
  "run_script tfp ops s = fold (run_op tfp) ops s"

definition spec_table :: "(string \<times> op list) list" where
  "spec_table =
     [(''basic_counting'',
         [Reset 1, SetInput ''en'' 1, Tick 20, SetInput ''en'' 0, Tick 5]),
      (''hold_when_disabled'',
         [Reset 1, SetInput ''en'' 1, Tick 5, SetInput ''en'' 0, Tick 10,
          SetInput ''en'' 1, Tick 5]),
      (''reset_behavior'',
         [SetInput ''en'' 1, Reset 2, Tick 5, SetInput ''en'' 0, Reset 1, Tick 5]),
      (''rst_over_en_priority'',
         [Reset 1, SetInput ''en'' 1, Tick 5, SetInput ''rst'' 1, Tick 4,
          SetInput ''rst'' 0, Tick 6]),
      (''wraparound'',
         [Reset 1, SetInput ''en'' 1, Tick 254, Tick 4, SetInput ''en'' 0, Tick 4]),
      (''mid_stream_reset'',
         [Reset 1, SetInput ''en'' 1, Tick 8, SetInput ''rst'' 1, Tick 1,
          SetInput ''rst'' 0, Tick 8])]"

definition builtin_names :: "string list" where
  "builtin_names = map fst spec_table"

section \<open>Reading the call list\<close>

fun is_dump :: "event \<Rightarrow> bool" where
  "is_dump (Dump t v) = True"
| "is_dump e = False"

fun is_eval :: "event \<Rightarrow> bool" where
  "is_eval (Eval v) = True"
| "is_eval e = False"

fun is_reset :: "event \<Rightarrow> bool" where
  "is_reset (Call_reset c) = True"
| "is_reset e = False"

definition num_dumps :: "event list \<Rightarrow> nat" where
  "num_dumps es = length (filter is_dump es)"

definition num_evals :: "event list \<Rightarrow> nat" where
  "num_evals es = length (filter is_eval es)"

definition num_ticks :: "event list \<Rightarrow> nat" where
  "num_ticks es = length (filter (\<lambda>e. e = Call_tick) es)"

definition num_resets :: "event list \<Rightarrow> nat" where
  "num_resets es = length (filter is_reset es)"

fun dump_times :: "event list \<Rightarrow> 64 word list" where
  "dump_times [] = []"
| "dump_times (Dump t v # es) = t # dump_times es"
| "dump_times (e # es) = dump_times es"

text \<open>The events a call appends: \<open>tick_events t d\<close> for a tick entered at time \<open>t\<close>
  with inputs \<open>d\<close> and a recorder.\<close>

definition tick_events :: "64 word \<Rightarrow> Vcounter \<Rightarrow> event list" where
  "tick_events t d =
     [Call_tick,
      Eval (d\<lparr>clk := 0\<rparr>), Dump t (d\<lparr>clk := 0\<rparr>),
      Eval (d\<lparr>clk := 1\<rparr>), Dump (t + 1) (d\<lparr>clk := 1\<rparr>)]"

text \<open>
  The recorder sees consecutive times from 0: the counter equals the number of snapshots
  taken, and the \<open>k\<close>-th snapshot carries the time \<open>k - 1\<close>.
\<close>

definition consec :: "harness \<Rightarrow> bool" where
  "consec s \<longleftrightarrow>
     main_time s = of_nat (num_dumps (events s)) \<and>
     dump_times (events s) = map of_nat [0..<num_dumps (events s)]"

text \<open>The clock values the device is evaluated with, and the edges between them.\<close>

fun eval_clks :: "event list \<Rightarrow> 8 word list" where
  "eval_clks [] = []"
| "eval_clks (Eval v # es) = clk v # eval_clks es"
| "eval_clks (e # es) = eval_clks es"

fun rising :: "8 word list \<Rightarrow> nat" where
  "rising (a # b # cs) = (if a = 0 \<and> b = 1 then 1 else 0) + rising (b # cs)"
| "rising cs = 0"

fun falling :: "8 word list \<Rightarrow> nat" where
  "falling (a # b # cs) = (if a = 1 \<and> b = 0 then 1 else 0) + falling (b # cs)"
| "falling cs = 0"

text \<open>
  The values of \<open>en\<close> and of \<open>rst\<close> in the recorded snapshots, in recording order.
\<close>

fun dump_ens :: "event list \<Rightarrow> 8 word list" where
  "dump_ens [] = []"
| "dump_ens (Dump t v # es) = en v # dump_ens es"
| "dump_ens (e # es) = dump_ens es"

fun dump_rsts :: "event list \<Rightarrow> 8 word list" where
  "dump_rsts [] = []"
| "dump_rsts (Dump t v # es) = rst v # dump_rsts es"
| "dump_rsts (e # es) = dump_rsts es"

text \<open>
  What holds of the clock between the statements of a run: the device was last evaluated
  with the value \<open>clk\<close> still has, every tick so far gave one rising edge, and every
  tick but the first one gave a falling edge.
\<close>

definition clock_inv :: "harness \<Rightarrow> bool" where
  "clock_inv s \<longleftrightarrow>
     eval_clks (events s) \<noteq> [] \<and>
     last (eval_clks (events s)) = clk (dut s) \<and>
     rising (eval_clks (events s)) = num_ticks (events s) \<and>
     (if clk (dut s) = 1
      then falling (eval_clks (events s)) + 1 = num_ticks (events s)
      else clk (dut s) = 0 \<and> falling (eval_clks (events s)) = 0 \<and> num_ticks (events s) = 0)"

text \<open>The same state with calls put in front of its call list.\<close>

definition prepend :: "event list \<Rightarrow> harness \<Rightarrow> harness" where
  "prepend es s = s\<lparr>events := es @ events s\<rparr>"

section \<open>Projections of the primitive statements\<close>

lemma log_simps [simp]:
  "dut (log e s) = dut s" "main_time (log e s) = main_time s" "events (log e s) = events s @ [e]"
  by (simp_all add: log_def)

lemma set_clk_simps [simp]:
  "dut (set_clk v s) = (dut s)\<lparr>clk := v\<rparr>" "main_time (set_clk v s) = main_time s"
  "events (set_clk v s) = events s"
  by (simp_all add: set_clk_def)

lemma set_rst_simps [simp]:
  "dut (set_rst v s) = (dut s)\<lparr>rst := v\<rparr>" "main_time (set_rst v s) = main_time s"
  "events (set_rst v s) = events s"
  by (simp_all add: set_rst_def)

lemma set_en_simps [simp]:
  "dut (set_en v s) = (dut s)\<lparr>en := v\<rparr>" "main_time (set_en v s) = main_time s"
  "events (set_en v s) = events s"
  by (simp_all add: set_en_def)

lemma eval_top_simps [simp]:
  "dut (eval_top s) = dut s" "main_time (eval_top s) = main_time s"
  "events (eval_top s) = events s @ [Eval (dut s)]"
  by (simp_all add: eval_top_def)

lemma dump_time_simps [simp]:
  "dut (dump_time s) = dut s" "main_time (dump_time s) = main_time s + 1"
  "events (dump_time s) = events s @ [Dump (main_time s) (dut s)]"
  by (simp_all add: dump_time_def)

lemma dump_if_simps [simp]:
  "dut (dump_if tfp s) = dut s"
  "main_time (dump_if tfp s) = (if tfp then main_time s + 1 else main_time s)"
  "events (dump_if tfp s) = (if tfp then events s @ [Dump (main_time s) (dut s)] else events s)"
  by (simp_all add: dump_if_def)

lemma harness_eqI: "dut s = dut s' \<Longrightarrow> main_time s = main_time s' \<Longrightarrow> events s = events s' \<Longrightarrow> (s::harness) = s'"
  by simp

lemma tick_dut [simp]: "dut (tick tfp s) = (dut s)\<lparr>clk := 1\<rparr>"
  by (simp add: tick_def Let_def)

lemma tick_time: "main_time (tick tfp s) = (if tfp then main_time s + 2 else main_time s)"
  by (simp add: tick_def Let_def)

lemma tick_events_eq:
  "events (tick tfp s) =
     (if tfp then events s @ tick_events (main_time s) (dut s)
      else events s @ [Call_tick, Eval ((dut s)\<lparr>clk := 0\<rparr>), Eval ((dut s)\<lparr>clk := 1\<rparr>)])"
  by (simp add: tick_def Let_def tick_events_def)

lemma for_tick_funpow: "for_tick i n tfp s = (tick tfp ^^ nat (n - i)) s"
proof (induction i n tfp s rule: for_tick.induct)
  case (1 i n tfp s)
  show ?case
  proof (cases "i < n")
    case True
    then have "nat (n - i) = Suc (nat (n - (i + 1)))" by simp
    with True 1 show ?thesis
      by (simp add: for_tick.simps [of i] funpow_swap1)
  next
    case False
    then show ?thesis by (simp add: for_tick.simps [of i])
  qed
qed

section \<open>Counting calls\<close>

lemma num_dumps_simps [simp]:
  "num_dumps [] = 0" "num_dumps (e # es) = (if is_dump e then 1 else 0) + num_dumps es"
  "num_dumps (xs @ ys) = num_dumps xs + num_dumps ys"
  by (simp_all add: num_dumps_def)

lemma num_evals_simps [simp]:
  "num_evals [] = 0" "num_evals (e # es) = (if is_eval e then 1 else 0) + num_evals es"
  "num_evals (xs @ ys) = num_evals xs + num_evals ys"
  by (simp_all add: num_evals_def)

lemma num_ticks_simps [simp]:
  "num_ticks [] = 0" "num_ticks (e # es) = (if e = Call_tick then 1 else 0) + num_ticks es"
  "num_ticks (xs @ ys) = num_ticks xs + num_ticks ys"
  by (simp_all add: num_ticks_def)

lemma num_resets_simps [simp]:
  "num_resets [] = 0" "num_resets (e # es) = (if is_reset e then 1 else 0) + num_resets es"
  "num_resets (xs @ ys) = num_resets xs + num_resets ys"
  by (simp_all add: num_resets_def)

lemma dump_times_append [simp]: "dump_times (xs @ ys) = dump_times xs @ dump_times ys"
  by (induction xs rule: dump_times.induct) simp_all

lemma length_dump_times: "length (dump_times es) = num_dumps es"
  by (induction es rule: dump_times.induct) simp_all

lemma tick_counts:
  "num_dumps (events (tick tfp s)) = num_dumps (events s) + (if tfp then 2 else 0)"
  "num_evals (events (tick tfp s)) = num_evals (events s) + 2"
  "num_ticks (events (tick tfp s)) = num_ticks (events s) + 1"
  "num_resets (events (tick tfp s)) = num_resets (events s)"
  by (simp_all add: tick_events_eq tick_events_def)

lemma ticks_counts:
  "num_dumps (events ((tick tfp ^^ n) s)) = num_dumps (events s) + (if tfp then 2 * n else 0)"
  "num_evals (events ((tick tfp ^^ n) s)) = num_evals (events s) + 2 * n"
  "num_ticks (events ((tick tfp ^^ n) s)) = num_ticks (events s) + n"
  "num_resets (events ((tick tfp ^^ n) s)) = num_resets (events s)"
  by (induction n) (simp_all add: tick_counts)

lemma ticks_time:
  "main_time ((tick tfp ^^ n) s) = (if tfp then main_time s + 2 * of_nat n else main_time s)"
  by (induction n) (auto simp: tick_time)

lemma ticks_dut: "dut ((tick tfp ^^ n) s) = (if n = 0 then dut s else (dut s)\<lparr>clk := 1\<rparr>)"
  by (induction n) simp_all

lemma reset_funpow:
  "reset tfp cycles s =
     dump_if tfp (eval_top (set_rst 0 ((tick tfp ^^ nat cycles)
       (dump_if tfp (eval_top (set_rst 1 (log (Call_reset cycles) s)))))))"
  by (simp add: reset_def Let_def for_tick_funpow)

lemma reset_counts:
  "num_dumps (events (reset tfp c s)) = num_dumps (events s) + (if tfp then 2 + 2 * nat c else 0)"
  "num_evals (events (reset tfp c s)) = num_evals (events s) + 2 + 2 * nat c"
  "num_ticks (events (reset tfp c s)) = num_ticks (events s) + nat c"
  "num_resets (events (reset tfp c s)) = num_resets (events s) + 1"
  by (simp_all add: reset_funpow ticks_counts)

lemma reset_time:
  "main_time (reset tfp c s) = (if tfp then main_time s + 2 + 2 * of_nat (nat c) else main_time s)"
  by (simp add: reset_funpow ticks_time)

lemma reset_dut: "dut (reset tfp c s) = (if 0 < c then (dut s)\<lparr>clk := 1, rst := 0\<rparr> else (dut s)\<lparr>rst := 0\<rparr>)"
  by (simp add: reset_funpow ticks_dut)

text \<open>
  What every step of a script keeps, the script keeps: the rule behind the invariants of
  whole runs.
\<close>

lemma funpow_preserves:
  assumes "\<And>s. P s \<Longrightarrow> P (f s)"
  shows "P s \<Longrightarrow> P ((f ^^ n) s)"
  by (induction n) (simp_all add: assms)

lemma for_tick_preserves:
  assumes "\<And>s. P s \<Longrightarrow> P (tick tfp s)"
  shows "P s \<Longrightarrow> P (for_tick i n tfp s)"
  unfolding for_tick_funpow using assms by (rule funpow_preserves)

lemma run_test_preserves:
  assumes t: "\<And>s. P s \<Longrightarrow> P (tick True s)"
    and r: "\<And>s c. P s \<Longrightarrow> P (reset True c s)"
    and e: "\<And>s v. P s \<Longrightarrow> P (set_en v s)"
    and x: "\<And>s v. P s \<Longrightarrow> P (set_rst v s)"
    and c: "\<And>s m. P s \<Longrightarrow> P (log (Cerr m) s)"
  shows "P s \<Longrightarrow> P (run_test test s)"
  by (simp add: run_test_def Let_def t r e x c for_tick_preserves [of P, OF t])

lemma ticks_events_extend: "\<exists>rest. events ((tick tfp ^^ n) s) = events s @ rest"
proof (induction n)
  case 0
  show ?case by simp
next
  case (Suc n)
  then obtain rest where "events ((tick tfp ^^ n) s) = events s @ rest" ..
  then show ?case by (cases tfp) (simp_all add: tick_events_eq)
qed

lemma take_extend: "\<exists>rest. ys = xs @ rest \<Longrightarrow> take (length xs) ys = xs"
  by auto

lemma reset_assert_prefix:
  "take (length (events s) + 3) (events (reset True c s)) =
     events s @ [Call_reset c, Eval ((dut s)\<lparr>rst := 1\<rparr>), Dump (main_time s) ((dut s)\<lparr>rst := 1\<rparr>)]"
proof -
  let ?s1 = "dump_if True (eval_top (set_rst 1 (log (Call_reset c) s)))"
  obtain rest where "events ((tick True ^^ nat c) ?s1) = events ?s1 @ rest"
    using ticks_events_extend by blast
  then have "\<exists>rest'. events (reset True c s) = events ?s1 @ rest'"
    by (simp add: reset_funpow)
  then have "take (length (events ?s1)) (events (reset True c s)) = events ?s1"
    by (rule take_extend)
  then show ?thesis
    by (simp add: add.commute [of _ 3] numeral_3_eq_3)
qed

section \<open>The claims about the sequencer\<close>

text \<open>
  C1. A call of \<^verbatim>\<open>tick\<close> with a recorder sets \<open>clk\<close> to 0, evaluates the device,
  records one snapshot at the current time and increments the time, then sets \<open>clk\<close> to
  1, evaluates, records one snapshot and increments the time: two evaluations and two
  snapshots are added, the low phase before the high phase, and nothing else changes.
\<close>

theorem tick_low_then_high:
  "tick True s =
     \<lparr>dut = (dut s)\<lparr>clk := 1\<rparr>,
      main_time = main_time s + 2,
      events = events s @
        [Call_tick,
         Eval ((dut s)\<lparr>clk := 0\<rparr>), Dump (main_time s) ((dut s)\<lparr>clk := 0\<rparr>),
         Eval ((dut s)\<lparr>clk := 1\<rparr>), Dump (main_time s + 1) ((dut s)\<lparr>clk := 1\<rparr>)]\<rparr>
   \<and> num_evals (events (tick True s)) = num_evals (events s) + 2
   \<and> num_dumps (events (tick True s)) = num_dumps (events s) + 2"
proof -
  have "tick True s =
     \<lparr>dut = (dut s)\<lparr>clk := 1\<rparr>, main_time = main_time s + 2,
      events = events s @ tick_events (main_time s) (dut s)\<rparr>"
    by (rule harness_eqI) (simp_all add: tick_time tick_events_eq)
  then show ?thesis
    by (simp add: tick_counts tick_events_def)
qed

text \<open>
  C2. A call of \<^verbatim>\<open>reset\<close> with a recorder sets \<open>rst\<close> to 1, evaluates, records one
  snapshot and increments the time; then runs \<^verbatim>\<open>tick\<close> exactly \<open>cycles\<close> times; then
  sets \<open>rst\<close> to 0, evaluates, records one snapshot and increments the time. The
  snapshot with \<open>rst = 1\<close> is in the call list before anything the ticks add, and with
  \<open>cycles = 0\<close> the call adds the two snapshots of the assertion and the deassertion and
  no tick. A negative \<open>cycles\<close> runs the loop zero times, as \<open>nat cycles\<close> says.
\<close>

theorem reset_assert_ticks_deassert:
  "reset True cycles s =
     (let s1 = \<lparr>dut = (dut s)\<lparr>rst := 1\<rparr>,
                main_time = main_time s + 1,
                events = events s @
                  [Call_reset cycles,
                   Eval ((dut s)\<lparr>rst := 1\<rparr>), Dump (main_time s) ((dut s)\<lparr>rst := 1\<rparr>)]\<rparr>;
          s2 = (tick True ^^ nat cycles) s1
      in \<lparr>dut = (dut s2)\<lparr>rst := 0\<rparr>,
          main_time = main_time s2 + 1,
          events = events s2 @
            [Eval ((dut s2)\<lparr>rst := 0\<rparr>), Dump (main_time s2) ((dut s2)\<lparr>rst := 0\<rparr>)]\<rparr>)
   \<and> take (length (events s) + 3) (events (reset True cycles s)) =
       events s @
         [Call_reset cycles,
          Eval ((dut s)\<lparr>rst := 1\<rparr>), Dump (main_time s) ((dut s)\<lparr>rst := 1\<rparr>)]
   \<and> num_ticks (events (reset True cycles s)) = num_ticks (events s) + nat cycles
   \<and> num_dumps (events (reset True cycles s)) = num_dumps (events s) + 2 + 2 * nat cycles
   \<and> num_evals (events (reset True cycles s)) = num_evals (events s) + 2 + 2 * nat cycles
   \<and> reset True 0 s =
       \<lparr>dut = (dut s)\<lparr>rst := 0\<rparr>,
        main_time = main_time s + 2,
        events = events s @
          [Call_reset 0,
           Eval ((dut s)\<lparr>rst := 1\<rparr>), Dump (main_time s) ((dut s)\<lparr>rst := 1\<rparr>),
           Eval ((dut s)\<lparr>rst := 0\<rparr>), Dump (main_time s + 1) ((dut s)\<lparr>rst := 0\<rparr>)]\<rparr>"
proof -
  define s1 where "s1 = dump_if True (eval_top (set_rst 1 (log (Call_reset cycles) s)))"
  have s1: "s1 = \<lparr>dut = (dut s)\<lparr>rst := 1\<rparr>, main_time = main_time s + 1,
      events = events s @ [Call_reset cycles,
        Eval ((dut s)\<lparr>rst := 1\<rparr>), Dump (main_time s) ((dut s)\<lparr>rst := 1\<rparr>)]\<rparr>"
    unfolding s1_def by (rule harness_eqI) simp_all
  have r: "reset True cycles s = dump_if True (eval_top (set_rst 0 ((tick True ^^ nat cycles) s1)))"
    by (simp add: reset_funpow s1_def)
  have a: "reset True cycles s =
     (let s2 = (tick True ^^ nat cycles) s1
      in \<lparr>dut = (dut s2)\<lparr>rst := 0\<rparr>, main_time = main_time s2 + 1,
          events = events s2 @
            [Eval ((dut s2)\<lparr>rst := 0\<rparr>), Dump (main_time s2) ((dut s2)\<lparr>rst := 0\<rparr>)]\<rparr>)"
    unfolding r Let_def by (rule harness_eqI) simp_all
  have b: "take (length (events s) + 3) (events (reset True cycles s)) =
       events s @ [Call_reset cycles,
          Eval ((dut s)\<lparr>rst := 1\<rparr>), Dump (main_time s) ((dut s)\<lparr>rst := 1\<rparr>)]"
    by (rule reset_assert_prefix)
  have z: "reset True 0 s =
       \<lparr>dut = (dut s)\<lparr>rst := 0\<rparr>, main_time = main_time s + 2,
        events = events s @ [Call_reset 0,
           Eval ((dut s)\<lparr>rst := 1\<rparr>), Dump (main_time s) ((dut s)\<lparr>rst := 1\<rparr>),
           Eval ((dut s)\<lparr>rst := 0\<rparr>), Dump (main_time s + 1) ((dut s)\<lparr>rst := 0\<rparr>)]\<rparr>"
    by (rule harness_eqI) (simp_all add: reset_funpow)
  have a': "reset True cycles s =
     (let s1 = \<lparr>dut = (dut s)\<lparr>rst := 1\<rparr>,
                main_time = main_time s + 1,
                events = events s @
                  [Call_reset cycles,
                   Eval ((dut s)\<lparr>rst := 1\<rparr>), Dump (main_time s) ((dut s)\<lparr>rst := 1\<rparr>)]\<rparr>;
          s2 = (tick True ^^ nat cycles) s1
      in \<lparr>dut = (dut s2)\<lparr>rst := 0\<rparr>,
          main_time = main_time s2 + 1,
          events = events s2 @
            [Eval ((dut s2)\<lparr>rst := 0\<rparr>), Dump (main_time s2) ((dut s2)\<lparr>rst := 0\<rparr>)]\<rparr>)"
    using a unfolding s1 Let_def .
  have c: "num_ticks (events (reset True cycles s)) = num_ticks (events s) + nat cycles"
    "num_dumps (events (reset True cycles s)) = num_dumps (events s) + 2 + 2 * nat cycles"
    "num_evals (events (reset True cycles s)) = num_evals (events s) + 2 + 2 * nat cycles"
    by (simp_all add: reset_counts)
  show ?thesis
    by (intro conjI a' b c z)
qed

section \<open>Consecutive times\<close>

lemma for_tick_counts:
  "num_dumps (events (for_tick 0 n True s)) = num_dumps (events s) + 2 * nat n"
  "num_evals (events (for_tick 0 n tfp s)) = num_evals (events s) + 2 * nat n"
  "num_ticks (events (for_tick 0 n tfp s)) = num_ticks (events s) + nat n"
  "num_resets (events (for_tick 0 n tfp s)) = num_resets (events s)"
  by (simp_all add: for_tick_funpow ticks_counts)

lemma consec_frame [simp]:
  "consec (set_clk v s) = consec s" "consec (set_rst v s) = consec s"
  "consec (set_en v s) = consec s" "consec (eval_top s) = consec s"
  by (simp_all add: consec_def)

lemma consec_log: "\<not> is_dump e \<Longrightarrow> consec (log e s) = consec s"
  by (cases e) (simp_all add: consec_def)

lemma consec_dump_time: "consec s \<Longrightarrow> consec (dump_time s)"
  by (simp add: consec_def)

lemma consec_tick: "consec s \<Longrightarrow> consec (tick True s)"
  by (simp add: tick_def Let_def dump_if_def consec_dump_time consec_log)

lemma consec_reset: "consec s \<Longrightarrow> consec (reset True c s)"
  by (simp add: reset_funpow dump_if_def consec_dump_time consec_log
      funpow_preserves [of consec, OF consec_tick])

lemma consec_construct: "consec (construct top0 p ok)"
  by (simp add: construct_def consec_def)

lemma consec_main: "consec (snd (main argv top0 ok))"
  by (simp add: main_def Let_def init_def consec_log consec_dump_time consec_construct
      run_test_preserves [of consec, OF consec_tick consec_reset])

lemma run_test_dumps_le: "num_dumps (events (run_test test s)) \<le> num_dumps (events s) + 528"
  by (simp add: run_test_def Let_def for_tick_counts reset_counts tick_counts)

lemma init_counts:
  "num_dumps (events (init s)) = num_dumps (events s) + 1"
  "num_evals (events (init s)) = num_evals (events s) + 1"
  "num_ticks (events (init s)) = num_ticks (events s)"
  "num_resets (events (init s)) = num_resets (events s)"
  by (simp_all add: init_def)

lemma construct_counts:
  "num_dumps (events (construct top0 p ok)) = 0"
  "num_evals (events (construct top0 p ok)) = 0"
  "num_ticks (events (construct top0 p ok)) = 0"
  "num_resets (events (construct top0 p ok)) = 0"
  by (simp_all add: construct_def)

lemma main_events:
  "events (snd (main argv top0 ok)) =
     events (run_test (test_arg argv) (init (construct top0 (vcd_path_arg argv) ok))) @ [Close, Final]"
  by (simp add: main_def Let_def)

lemma main_dumps_le: "num_dumps (events (snd (main argv top0 ok))) \<le> 529"
  using run_test_dumps_le [of "test_arg argv" "init (construct top0 (vcd_path_arg argv) ok)"]
  by (simp add: main_events init_counts construct_counts)

lemma main_dumps_pos: "0 < num_dumps (events (snd (main argv top0 ok)))"
proof -
  have "num_dumps (events s) \<le> num_dumps (events (run_test test s))" for test s
    by (simp add: run_test_def Let_def for_tick_counts reset_counts tick_counts)
  from this [of "init (construct top0 (vcd_path_arg argv) ok)" "test_arg argv"]
  show ?thesis by (simp add: main_events init_counts construct_counts)
qed

lemma unat_upt_word64: "n \<le> 529 \<Longrightarrow> map unat (map of_nat [0..<n] :: 64 word list) = [0..<n]"
  by (rule map_idI [THEN trans [OF map_map]]) (simp add: unat_of_nat)

section \<open>The claims about whole runs\<close>

text \<open>
  C3. In every run, whatever the scenario name and also when it is unknown, the times
  passed to the recorder are 0, 1, 2, ... in this order: the \<open>k\<close>-th snapshot is recorded
  at time \<open>k - 1\<close>, starting with the baseline at time 0, so the times are strictly
  increasing without gap or repetition.
\<close>

theorem recorded_times_consecutive:
  "map unat (dump_times (events (snd (main argv top0 open_ok)))) =
     [0..<num_dumps (events (snd (main argv top0 open_ok)))]
   \<and> sorted_wrt (<) (dump_times (events (snd (main argv top0 open_ok))))
   \<and> 0 < num_dumps (events (snd (main argv top0 open_ok)))"
proof -
  let ?es = "events (snd (main argv top0 open_ok))"
  have "dump_times ?es = map of_nat [0..<num_dumps ?es]"
    using consec_main [of argv top0 open_ok] by (simp add: consec_def)
  then have u: "map unat (dump_times ?es) = [0..<num_dumps ?es]"
    using unat_upt_word64 [OF main_dumps_le [of argv top0 open_ok]] by simp
  have "sorted_wrt (<) (map unat (dump_times ?es))"
    unfolding u by simp
  moreover have "(\<lambda>x y. unat x < unat y) = ((<) :: 64 word \<Rightarrow> 64 word \<Rightarrow> bool)"
    by (intro ext) (simp add: word_less_nat_alt)
  ultimately have "sorted_wrt (<) (dump_times ?es)"
    by (simp add: sorted_wrt_map)
  with u main_dumps_pos show ?thesis by blast
qed

lemma snapshot_count_inv:
  "num_dumps (events (run_test test s)) + 2 * num_ticks (events s) + 2 * num_resets (events s) =
   num_dumps (events s) + 2 * num_ticks (events (run_test test s)) + 2 * num_resets (events (run_test test s))"
  by (simp add: run_test_def Let_def for_tick_counts reset_counts tick_counts)

text \<open>
  C4. In every run the number of recorded snapshots is twice the number of executions of
  \<^verbatim>\<open>tick\<close> (those inside \<^verbatim>\<open>reset\<close> included) plus twice the number of calls of
  \<^verbatim>\<open>reset\<close> plus one for the baseline. The six built-in scenarios execute 26, 21, 13,
  16, 263 and 18 ticks and record 55, 45, 31, 35, 529 and 39 snapshots.
\<close>

theorem snapshot_count:
  "num_dumps (events (snd (main argv top0 open_ok))) =
     2 * num_ticks (events (snd (main argv top0 open_ok))) +
     2 * num_resets (events (snd (main argv top0 open_ok))) + 1
   \<and> map (\<lambda>name. let es = events (snd (main [prog, name] top0 open_ok))
                 in (num_ticks es, num_resets es, num_dumps es)) builtin_names =
       [(26, 1, 55), (21, 1, 45), (13, 2, 31), (16, 1, 35), (263, 1, 529), (18, 1, 39)]"
proof -
  have a: "num_dumps (events (snd (main argv top0 open_ok))) =
     2 * num_ticks (events (snd (main argv top0 open_ok))) +
     2 * num_resets (events (snd (main argv top0 open_ok))) + 1"
    using snapshot_count_inv [of "test_arg argv" "init (construct top0 (vcd_path_arg argv) open_ok)"]
    by (simp add: main_events init_counts construct_counts)
  have b: "map (\<lambda>name. let es = events (snd (main [prog, name] top0 open_ok))
                 in (num_ticks es, num_resets es, num_dumps es)) builtin_names =
       [(26, 1, 55), (21, 1, 45), (13, 2, 31), (16, 1, 35), (263, 1, 529), (18, 1, 39)]"
    by (simp add: builtin_names_def spec_table_def main_events test_arg_def init_counts
        construct_counts run_test_def Let_def for_tick_counts reset_counts tick_counts)
  from a b show ?thesis ..
qed

lemma run_op_time:
  "main_time (run_op tfp x s) + of_nat (num_dumps (events s)) =
   main_time s + of_nat (num_dumps (events (run_op tfp x s)))"
  by (cases x) (simp_all add: ticks_time ticks_counts reset_time reset_counts)

lemma run_script_time:
  "main_time (run_script tfp ops s) + of_nat (num_dumps (events s)) =
   main_time s + of_nat (num_dumps (events (run_script tfp ops s)))"
  unfolding run_script_def
proof (induction ops arbitrary: s)
  case Nil
  show ?case by simp
next
  case (Cons x ops)
  let ?s1 = "run_op tfp x s"
  let ?s2 = "fold (run_op tfp) ops ?s1"
  have a: "main_time ?s2 + of_nat (num_dumps (events ?s1)) =
      main_time ?s1 + of_nat (num_dumps (events ?s2))"
    by (rule Cons.IH)
  have b: "main_time ?s1 + of_nat (num_dumps (events s)) =
      main_time s + of_nat (num_dumps (events ?s1))"
    by (rule run_op_time)
  have "main_time ?s2 + of_nat (num_dumps (events s)) + of_nat (num_dumps (events ?s1)) =
      main_time s + of_nat (num_dumps (events ?s2)) + of_nat (num_dumps (events ?s1))"
    using a b by (simp add: algebra_simps)
  then show ?case by simp
qed

text \<open>
  C8. The time counter moves only together with a snapshot. Over any sequence of
  operations, with or without a recorder, it advances by the number of snapshots
  recorded; started from the baseline, and at the end of every run, it equals the number
  of snapshots recorded so far (as a 64-bit value, and as a number at the end of a run).
  With a null recorder \<^verbatim>\<open>tick\<close> and \<^verbatim>\<open>reset\<close> leave the time alone and record
  nothing, and still evaluate the device.
\<close>

theorem time_counts_snapshots:
  "main_time (run_script tfp ops s) + of_nat (num_dumps (events s)) =
     main_time s + of_nat (num_dumps (events (run_script tfp ops s)))
   \<and> main_time (tick tfp s) + of_nat (num_dumps (events s)) =
     main_time s + of_nat (num_dumps (events (tick tfp s)))
   \<and> main_time (reset tfp cycles s) + of_nat (num_dumps (events s)) =
     main_time s + of_nat (num_dumps (events (reset tfp cycles s)))
   \<and> main_time (run_script tfp ops (init (construct top0 vcd_path open_ok))) =
     of_nat (num_dumps (events (run_script tfp ops (init (construct top0 vcd_path open_ok)))))
   \<and> main_time (snd (main argv top0 open_ok)) =
     of_nat (num_dumps (events (snd (main argv top0 open_ok))))
   \<and> unat (main_time (snd (main argv top0 open_ok))) =
     num_dumps (events (snd (main argv top0 open_ok)))
   \<and> main_time (tick False s) = main_time s
   \<and> num_dumps (events (tick False s)) = num_dumps (events s)
   \<and> num_evals (events (tick False s)) = num_evals (events s) + 2
   \<and> main_time (reset False cycles s) = main_time s
   \<and> num_dumps (events (reset False cycles s)) = num_dumps (events s)
   \<and> num_evals (events (reset False cycles s)) = num_evals (events s) + 2 + 2 * nat cycles"
proof -
  let ?m = "snd (main argv top0 open_ok)"
  have m: "main_time ?m = of_nat (num_dumps (events ?m))"
    using consec_main [of argv top0 open_ok] by (simp add: consec_def)
  have "unat (of_nat (num_dumps (events ?m)) :: 64 word) = num_dumps (events ?m)"
    using main_dumps_le [of argv top0 open_ok] by (simp add: unat_of_nat)
  with m have u: "unat (main_time ?m) = num_dumps (events ?m)"
    by simp
  have i: "main_time (run_script tfp ops (init (construct top0 vcd_path open_ok))) =
     of_nat (num_dumps (events (run_script tfp ops (init (construct top0 vcd_path open_ok)))))"
    using run_script_time [of tfp ops "init (construct top0 vcd_path open_ok)"]
    by (simp add: init_counts construct_counts init_def construct_def)
  show ?thesis
    by (intro conjI run_script_time m u i)
      (simp_all add: tick_time tick_counts reset_time reset_counts)
qed

section \<open>The dispatcher against the table\<close>

lemma run_test_script:
  "run_test test s =
     (case map_of spec_table test of
        Some script \<Rightarrow> run_script True script s
      | None \<Rightarrow> log (Cerr (''Unknown test: '' @ test @ [CHR 0x0A])) s)"
  by (simp add: spec_table_def run_test_def run_script_def Let_def for_tick_funpow)

lemma main_unfold:
  "main argv top0 open_ok =
     (0, log Final (log Close (run_test (test_arg argv)
           (init (construct top0 (vcd_path_arg argv) open_ok)))))"
  by (simp add: main_def Let_def)

text \<open>
  C5. For each of the six built-in names the script that \<^verbatim>\<open>main\<close> executes is the
  operation sequence of the table, in this order: \<open>run_test\<close> on the name equals
  \<open>run_script\<close> on the table's row, and a whole run is the set-up, the baseline, that
  script, \<^verbatim>\<open>close\<close> and \<^verbatim>\<open>final\<close> with nothing in between. For
  \<^verbatim>\<open>wraparound\<close>: \<^verbatim>\<open>reset(1)\<close>, \<open>en = 1\<close>, 254 ticks, 4 ticks, \<open>en = 0\<close>, 4 ticks.
\<close>

theorem scripts_as_tabled:
  "list_all (\<lambda>(name, script).
       run_test name s = run_script True script s \<and>
       main [prog, name] top0 open_ok =
         (0, log Final (log Close (run_script True script
               (init (construct top0 ''waves.vcd'' open_ok))))))
     spec_table
   \<and> map fst spec_table =
       [''basic_counting'', ''hold_when_disabled'', ''reset_behavior'',
        ''rst_over_en_priority'', ''wraparound'', ''mid_stream_reset'']
   \<and> run_test ''wraparound'' s =
       (tick True ^^ 4) (set_en 0 ((tick True ^^ 4) ((tick True ^^ 254)
         (set_en 1 (reset True 1 s)))))
   \<and> main argv top0 open_ok =
       (0, log Final (log Close (run_test (test_arg argv)
             (init (construct top0 (vcd_path_arg argv) open_ok)))))"
proof -
  have a: "list_all (\<lambda>(name, script). run_test name s = run_script True script s) spec_table" for s
    by (simp add: run_test_script) (simp add: spec_table_def)
  have b: "list_all (\<lambda>(name, script). main [prog, name] top0 open_ok =
         (0, log Final (log Close (run_script True script
               (init (construct top0 ''waves.vcd'' open_ok)))))) spec_table"
    using a [of "init (construct top0 ''waves.vcd'' open_ok)"]
    by (simp add: main_unfold test_arg_def vcd_path_arg_def list_all_iff case_prod_unfold)
  have c: "map fst spec_table =
       [''basic_counting'', ''hold_when_disabled'', ''reset_behavior'',
        ''rst_over_en_priority'', ''wraparound'', ''mid_stream_reset'']"
    by (simp add: spec_table_def)
  have d: "run_test ''wraparound'' s =
       (tick True ^^ 4) (set_en 0 ((tick True ^^ 4) ((tick True ^^ 254)
         (set_en 1 (reset True 1 s)))))"
    by (simp add: run_test_def Let_def for_tick_funpow)
  from a [of s] b have "list_all (\<lambda>(name, script).
       run_test name s = run_script True script s \<and>
       main [prog, name] top0 open_ok =
         (0, log Final (log Close (run_script True script
               (init (construct top0 ''waves.vcd'' open_ok))))))
     spec_table"
    by (simp add: list_all_iff case_prod_unfold)
  with c d main_unfold show ?thesis by blast
qed

lemma run_test_unknown:
  "test \<notin> set builtin_names \<Longrightarrow>
   run_test test s = log (Cerr (''Unknown test: '' @ test @ [CHR 0x0A])) s"
  by (simp add: builtin_names_def spec_table_def run_test_def)

lemma baseline_state:
  "init (construct top0 vcd_path open_ok) =
     \<lparr>dut = \<lparr>clk = 0, rst = 0, en = 0\<rparr>, main_time = 1,
      events = [Trace 99, Open vcd_path open_ok,
                Eval \<lparr>clk = 0, rst = 0, en = 0\<rparr>, Dump 0 \<lparr>clk = 0, rst = 0, en = 0\<rparr>]\<rparr>"
  by (rule harness_eqI) (simp_all add: init_def construct_def)

text \<open>
  C6. The dispatch is a lookup of the exact string in the table. For a name that is none
  of the six, the run consists of the set-up, the baseline evaluation and snapshot at
  time 0, the diagnostic on \<^verbatim>\<open>std::cerr\<close>, \<^verbatim>\<open>close\<close> and \<^verbatim>\<open>final\<close>, and the
  exit status is 0: no input is driven, nothing else is evaluated or recorded.
\<close>

theorem unknown_test_baseline_only:
  "run_test test s =
     (case map_of spec_table test of
        Some script \<Rightarrow> run_script True script s
      | None \<Rightarrow> log (Cerr (''Unknown test: '' @ test @ [CHR 0x0A])) s)
   \<and> (test_arg argv \<notin> set builtin_names \<longrightarrow>
        main argv top0 open_ok =
          (0, \<lparr>dut = \<lparr>clk = 0, rst = 0, en = 0\<rparr>,
               main_time = 1,
               events =
                 [Trace 99, Open (vcd_path_arg argv) open_ok,
                  Eval \<lparr>clk = 0, rst = 0, en = 0\<rparr>, Dump 0 \<lparr>clk = 0, rst = 0, en = 0\<rparr>,
                  Cerr (''Unknown test: '' @ test_arg argv @ [CHR 0x0A]),
                  Close, Final]\<rparr>))"
proof (intro conjI impI)
  show "run_test test s =
     (case map_of spec_table test of
        Some script \<Rightarrow> run_script True script s
      | None \<Rightarrow> log (Cerr (''Unknown test: '' @ test @ [CHR 0x0A])) s)"
    by (rule run_test_script)
next
  assume "test_arg argv \<notin> set builtin_names"
  then show "main argv top0 open_ok =
          (0, \<lparr>dut = \<lparr>clk = 0, rst = 0, en = 0\<rparr>,
               main_time = 1,
               events =
                 [Trace 99, Open (vcd_path_arg argv) open_ok,
                  Eval \<lparr>clk = 0, rst = 0, en = 0\<rparr>, Dump 0 \<lparr>clk = 0, rst = 0, en = 0\<rparr>,
                  Cerr (''Unknown test: '' @ test_arg argv @ [CHR 0x0A]),
                  Close, Final]\<rparr>)"
    by (simp add: main_unfold run_test_unknown baseline_state log_def)
qed

text \<open>
  C6 at a concrete input. The match is case-sensitive: \<^verbatim>\<open>Basic_Counting\<close> is an
  unknown name, and its run is the baseline and the diagnostic only.
\<close>

theorem unknown_test_baseline_only_witness:
  "test_arg [''Vcounter'', ''Basic_Counting''] \<notin> set builtin_names
   \<and> main [''Vcounter'', ''Basic_Counting''] \<lparr>clk = 1, rst = 1, en = 1\<rparr> True =
      (0, \<lparr>dut = \<lparr>clk = 0, rst = 0, en = 0\<rparr>,
           main_time = 1,
           events =
             [Trace 99, Open ''waves.vcd'' True,
              Eval \<lparr>clk = 0, rst = 0, en = 0\<rparr>, Dump 0 \<lparr>clk = 0, rst = 0, en = 0\<rparr>,
              Cerr ''Unknown test: Basic_Counting\<newline>'',
              Close, Final]\<rparr>)"
proof -
  have h: "test_arg [''Vcounter'', ''Basic_Counting''] \<notin> set builtin_names"
    by (simp add: test_arg_def builtin_names_def spec_table_def)
  from unknown_test_baseline_only
    [of _ _ "[''Vcounter'', ''Basic_Counting'']" "\<lparr>clk = 1, rst = 1, en = 1\<rparr>" True] h
  have "main [''Vcounter'', ''Basic_Counting''] \<lparr>clk = 1, rst = 1, en = 1\<rparr> True =
      (0, \<lparr>dut = \<lparr>clk = 0, rst = 0, en = 0\<rparr>,
           main_time = 1,
           events =
             [Trace 99, Open (vcd_path_arg [''Vcounter'', ''Basic_Counting'']) True,
              Eval \<lparr>clk = 0, rst = 0, en = 0\<rparr>, Dump 0 \<lparr>clk = 0, rst = 0, en = 0\<rparr>,
              Cerr (''Unknown test: '' @ test_arg [''Vcounter'', ''Basic_Counting''] @ [CHR 0x0A]),
              Close, Final]\<rparr>)"
    by blast
  then show ?thesis using h by (simp add: test_arg_def vcd_path_arg_def)
qed

section \<open>The outcome of opening the trace file\<close>

lemma prepend_simps [simp]:
  "dut (prepend es s) = dut s" "main_time (prepend es s) = main_time s"
  "events (prepend es s) = es @ events s"
  by (simp_all add: prepend_def)

lemma prepend_primitives:
  "log e (prepend es s) = prepend es (log e s)"
  "set_clk v (prepend es s) = prepend es (set_clk v s)"
  "set_rst v (prepend es s) = prepend es (set_rst v s)"
  "set_en v (prepend es s) = prepend es (set_en v s)"
  "eval_top (prepend es s) = prepend es (eval_top s)"
  "dump_time (prepend es s) = prepend es (dump_time s)"
  "dump_if tfp (prepend es s) = prepend es (dump_if tfp s)"
  by (rule harness_eqI; simp)+

lemma prepend_tick: "tick tfp (prepend es s) = prepend es (tick tfp s)"
  by (simp add: tick_def Let_def prepend_primitives)

lemma prepend_ticks: "(tick tfp ^^ n) (prepend es s) = prepend es ((tick tfp ^^ n) s)"
  by (induction n) (simp_all add: prepend_tick)

lemma prepend_reset: "reset tfp c (prepend es s) = prepend es (reset tfp c s)"
  by (simp add: reset_funpow prepend_primitives prepend_ticks)

lemma prepend_init: "init (prepend es s) = prepend es (init s)"
  by (simp add: init_def prepend_primitives)

lemma prepend_run_test: "run_test test (prepend es s) = prepend es (run_test test s)"
  by (simp add: run_test_def Let_def for_tick_funpow prepend_primitives prepend_tick
      prepend_ticks prepend_reset)

lemma construct_prepend:
  "construct top0 p ok = prepend [Trace 99, Open p ok] \<lparr>dut = top0, main_time = 0, events = []\<rparr>"
  by (rule harness_eqI) (simp_all add: construct_def)

lemma main_prepend:
  "main argv top0 open_ok =
     (0, prepend [Trace 99, Open (vcd_path_arg argv) open_ok]
           (log Final (log Close (run_test (test_arg argv)
              (init \<lparr>dut = top0, main_time = 0, events = []\<rparr>)))))"
  by (simp add: main_unfold construct_prepend prepend_init prepend_run_test prepend_primitives)

text \<open>
  C7 says that a trace file that cannot be opened ends the run at once with a non-zero
  exit status. \<^verbatim>\<open>main\<close> never looks at the outcome of \<^verbatim>\<open>open\<close>: with a path that
  cannot be opened, \<^verbatim>\<open>basic_counting\<close> still executes its 26 ticks, records its 55
  snapshots and returns 0.
\<close>

theorem open_failure_not_fatal:
  "fst (main [''Vcounter'', ''basic_counting'', ''/nonexistent/waves.vcd'']
          \<lparr>clk = 0, rst = 0, en = 0\<rparr> False) = 0
   \<and> events (snd (main [''Vcounter'', ''basic_counting'', ''/nonexistent/waves.vcd'']
          \<lparr>clk = 0, rst = 0, en = 0\<rparr> False)) ! 1 = Open ''/nonexistent/waves.vcd'' False
   \<and> num_ticks (events (snd (main [''Vcounter'', ''basic_counting'', ''/nonexistent/waves.vcd'']
          \<lparr>clk = 0, rst = 0, en = 0\<rparr> False))) = 26
   \<and> num_dumps (events (snd (main [''Vcounter'', ''basic_counting'', ''/nonexistent/waves.vcd'']
          \<lparr>clk = 0, rst = 0, en = 0\<rparr> False))) = 55"
  by (simp add: main_prepend)
    (simp add: test_arg_def vcd_path_arg_def init_counts run_test_def Let_def
      for_tick_counts reset_counts)

text \<open>
  C7, amended. Whether the trace file could be opened has no influence on the run: the
  calls after \<^verbatim>\<open>open\<close> (baseline, script, \<^verbatim>\<open>close\<close>, \<^verbatim>\<open>final\<close>), the final
  inputs and the final time are those of a run whose \<^verbatim>\<open>open\<close> succeeded, and the exit
  status is 0.
\<close>

theorem open_outcome_ignored:
  "(let r = log Final (log Close (run_test (test_arg argv)
              (init \<lparr>dut = top0, main_time = 0, events = []\<rparr>)))
    in main argv top0 open_ok =
         (0, r\<lparr>events := [Trace 99, Open (vcd_path_arg argv) open_ok] @ events r\<rparr>))
   \<and> main argv top0 False =
       (0, (snd (main argv top0 True))
             \<lparr>events := (events (snd (main argv top0 True)))
                 [1 := Open (vcd_path_arg argv) False]\<rparr>)
   \<and> fst (main argv top0 open_ok) = 0"
  by (simp add: main_prepend Let_def)

section \<open>Input assignments\<close>

lemma dump_ens_append [simp]: "dump_ens (xs @ ys) = dump_ens xs @ dump_ens ys"
  by (induction xs rule: dump_ens.induct) simp_all

lemma dump_rsts_append [simp]: "dump_rsts (xs @ ys) = dump_rsts xs @ dump_rsts ys"
  by (induction xs rule: dump_rsts.induct) simp_all

lemma tick_en_rst [simp]: "en (dut (tick tfp s)) = en (dut s)" "rst (dut (tick tfp s)) = rst (dut s)"
  by simp_all

lemma ticks_en_rst [simp]:
  "en (dut ((tick tfp ^^ n) s)) = en (dut s)" "rst (dut ((tick tfp ^^ n) s)) = rst (dut s)"
  by (simp_all add: ticks_dut)

lemma tick_dump_vals:
  "dump_ens (events (tick True s)) = dump_ens (events s) @ replicate 2 (en (dut s))"
  "dump_rsts (events (tick True s)) = dump_rsts (events s) @ replicate 2 (rst (dut s))"
  by (simp_all add: tick_events_eq tick_events_def numeral_2_eq_2)

lemma ticks_dump_vals:
  "dump_ens (events ((tick True ^^ n) s)) = dump_ens (events s) @ replicate (2 * n) (en (dut s))"
  "dump_rsts (events ((tick True ^^ n) s)) = dump_rsts (events s) @ replicate (2 * n) (rst (dut s))"
  by (induction n) (simp_all add: tick_dump_vals replicate_add [symmetric])

lemma reset_dump_vals:
  "dump_ens (events (reset True c s)) = dump_ens (events s) @ replicate (2 + 2 * nat c) (en (dut s))"
  "dump_rsts (events (reset True c s)) = dump_rsts (events s) @ 1 # replicate (2 * nat c) 1 @ [0]"
  by (simp_all add: reset_funpow ticks_dump_vals replicate_append_same)

lemma reset_en_rst [simp]: "en (dut (reset tfp c s)) = en (dut s)" "rst (dut (reset tfp c s)) = 0"
  by (simp_all add: reset_dut)

lemma for_tick_dump_vals:
  "dump_ens (events (for_tick 0 n True s)) = dump_ens (events s) @ replicate (2 * nat n) (en (dut s))"
  "dump_rsts (events (for_tick 0 n True s)) = dump_rsts (events s) @ replicate (2 * nat n) (rst (dut s))"
  "en (dut (for_tick 0 n tfp s)) = en (dut s)" "rst (dut (for_tick 0 n tfp s)) = rst (dut s)"
  by (simp_all add: for_tick_funpow ticks_dump_vals)

text \<open>
  C9. An assignment to \<open>en\<close> or \<open>rst\<close> in a script changes that input field only: the
  call list and the time stay, so nothing is evaluated or recorded. The value shows first
  in the low-phase evaluation and snapshot of the next tick, or in the assertion
  snapshot of the next \<^verbatim>\<open>reset\<close>. In \<^verbatim>\<open>basic_counting\<close> the snapshots carry
  \<open>en = 0\<close> five times, \<open>en = 1\<close> forty times and \<open>en = 0\<close> ten times; in
  \<^verbatim>\<open>reset_behavior\<close> \<open>en = 1\<close> shows from the assertion snapshot of the first reset;
  in \<^verbatim>\<open>mid_stream_reset\<close> \<open>rst = 1\<close> shows in the two snapshots of the single tick.
\<close>

theorem input_assignment_frame:
  "events (set_en v s) = events s \<and> main_time (set_en v s) = main_time s
   \<and> clk (dut (set_en v s)) = clk (dut s) \<and> rst (dut (set_en v s)) = rst (dut s)
   \<and> en (dut (set_en v s)) = v
   \<and> events (set_rst v s) = events s \<and> main_time (set_rst v s) = main_time s
   \<and> clk (dut (set_rst v s)) = clk (dut s) \<and> en (dut (set_rst v s)) = en (dut s)
   \<and> rst (dut (set_rst v s)) = v
   \<and> events (tick True (set_en v s)) =
       events s @
         [Call_tick,
          Eval ((dut s)\<lparr>en := v, clk := 0\<rparr>), Dump (main_time s) ((dut s)\<lparr>en := v, clk := 0\<rparr>),
          Eval ((dut s)\<lparr>en := v, clk := 1\<rparr>), Dump (main_time s + 1) ((dut s)\<lparr>en := v, clk := 1\<rparr>)]
   \<and> events (tick True (set_rst v s)) =
       events s @
         [Call_tick,
          Eval ((dut s)\<lparr>rst := v, clk := 0\<rparr>), Dump (main_time s) ((dut s)\<lparr>rst := v, clk := 0\<rparr>),
          Eval ((dut s)\<lparr>rst := v, clk := 1\<rparr>), Dump (main_time s + 1) ((dut s)\<lparr>rst := v, clk := 1\<rparr>)]
   \<and> take (length (events s) + 3) (events (reset True cycles (set_en v s))) =
       events s @
         [Call_reset cycles,
          Eval ((dut s)\<lparr>en := v, rst := 1\<rparr>), Dump (main_time s) ((dut s)\<lparr>en := v, rst := 1\<rparr>)]
   \<and> dump_ens (events (snd (main [prog, ''basic_counting''] top0 open_ok))) =
       0 # replicate 4 0 @ replicate 40 1 @ replicate 10 0
   \<and> dump_ens (events (snd (main [prog, ''reset_behavior''] top0 open_ok))) =
       0 # replicate 16 1 @ replicate 14 0
   \<and> dump_rsts (events (snd (main [prog, ''mid_stream_reset''] top0 open_ok))) =
       [0, 1, 1, 1, 0] @ replicate 16 0 @ [1, 1] @ replicate 16 0"
proof -
  have r: "take (length (events s) + 3) (events (reset True cycles (set_en v s))) =
       events s @
         [Call_reset cycles,
          Eval ((dut s)\<lparr>en := v, rst := 1\<rparr>), Dump (main_time s) ((dut s)\<lparr>en := v, rst := 1\<rparr>)]"
    using reset_assert_prefix [of "set_en v s" cycles] by simp
  have b: "dump_ens (events (snd (main [prog, ''basic_counting''] top0 open_ok))) =
       0 # replicate 4 0 @ replicate 40 1 @ replicate 10 0"
    by (simp add: main_events test_arg_def init_def construct_def run_test_def Let_def
        for_tick_dump_vals reset_dump_vals)
  have c: "dump_ens (events (snd (main [prog, ''reset_behavior''] top0 open_ok))) =
       0 # replicate 16 1 @ replicate 14 0"
    by (simp add: main_events test_arg_def init_def construct_def run_test_def Let_def
        for_tick_dump_vals reset_dump_vals replicate_add [symmetric])
  have d: "dump_rsts (events (snd (main [prog, ''mid_stream_reset''] top0 open_ok))) =
       [0, 1, 1, 1, 0] @ replicate 16 0 @ [1, 1] @ replicate 16 0"
    by (simp add: main_events test_arg_def init_def construct_def run_test_def Let_def
        for_tick_dump_vals reset_dump_vals tick_dump_vals numeral_2_eq_2)
  show ?thesis
    by (intro conjI r b c d) (simp_all add: tick_events_eq tick_events_def)
qed

section \<open>Clock edges\<close>

lemma eval_clks_append [simp]: "eval_clks (xs @ ys) = eval_clks xs @ eval_clks ys"
  by (induction xs rule: eval_clks.induct) simp_all

lemma rising_snoc:
  "cs \<noteq> [] \<Longrightarrow> rising (cs @ [c]) = rising cs + (if last cs = 0 \<and> c = 1 then 1 else 0)"
  by (induction cs rule: rising.induct) simp_all

lemma falling_snoc:
  "cs \<noteq> [] \<Longrightarrow> falling (cs @ [c]) = falling cs + (if last cs = 1 \<and> c = 0 then 1 else 0)"
  by (induction cs rule: falling.induct) simp_all

lemma tick_eval_clks: "eval_clks (events (tick tfp s)) = eval_clks (events s) @ [0, 1]"
  by (simp add: tick_events_eq tick_events_def)

lemma rising_low_high:
  "cs \<noteq> [] \<Longrightarrow> rising (cs @ [0, 1]) = rising cs + 1"
  using rising_snoc [of "cs @ [0]" 1] rising_snoc [of cs 0] by simp

lemma falling_low_high:
  "cs \<noteq> [] \<Longrightarrow> falling (cs @ [0, 1]) = falling cs + (if last cs = 1 then 1 else 0)"
  using falling_snoc [of "cs @ [0]" 1] falling_snoc [of cs 0] by simp

lemma clock_inv_frame [simp]:
  "clock_inv (set_rst v s) = clock_inv s" "clock_inv (set_en v s) = clock_inv s"
  "clock_inv (dump_if tfp s) = clock_inv s"
  by (simp_all add: clock_inv_def)

lemma clock_inv_log:
  "\<not> is_eval e \<Longrightarrow> e \<noteq> Call_tick \<Longrightarrow> clock_inv (log e s) = clock_inv s"
  by (cases e) (simp_all add: clock_inv_def)

lemma clock_inv_eval_top: "clock_inv s \<Longrightarrow> clock_inv (eval_top s)"
  by (auto simp: clock_inv_def rising_snoc falling_snoc split: if_splits)

lemma clock_inv_tick: "clock_inv s \<Longrightarrow> clock_inv (tick tfp s)"
  by (auto simp: clock_inv_def tick_eval_clks tick_counts rising_low_high falling_low_high
      split: if_splits)

lemma clock_inv_reset: "clock_inv s \<Longrightarrow> clock_inv (reset tfp c s)"
  by (simp add: reset_funpow clock_inv_eval_top clock_inv_log
      funpow_preserves [of clock_inv, OF clock_inv_tick])

lemma clock_inv_baseline: "clock_inv (init (construct top0 p ok))"
  by (simp add: baseline_state clock_inv_def)

lemma clock_inv_main: "clock_inv (snd (main argv top0 ok))"
  by (simp add: main_unfold clock_inv_log clock_inv_baseline
      run_test_preserves [of clock_inv, OF clock_inv_tick clock_inv_reset])

text \<open>
  C10. After the baseline \<open>clk\<close> is 0 and after every tick it is 1. A tick evaluates
  the device with \<open>clk = 0\<close> and then with \<open>clk = 1\<close>, one rising edge; in every run
  the evaluations show as many rising edges as ticks, and one falling edge fewer: every
  tick but the first of the run starts with a falling edge.
\<close>

theorem clock_edges:
  "clk (dut (init s)) = 0
   \<and> clk (dut (tick tfp s)) = 1
   \<and> eval_clks (events (tick tfp s)) = eval_clks (events s) @ [0, 1]
   \<and> rising (eval_clks (events (snd (main argv top0 open_ok)))) =
       num_ticks (events (snd (main argv top0 open_ok)))
   \<and> falling (eval_clks (events (snd (main argv top0 open_ok)))) =
       num_ticks (events (snd (main argv top0 open_ok))) - 1"
proof -
  let ?m = "snd (main argv top0 open_ok)"
  have "clock_inv ?m" by (rule clock_inv_main)
  then have "rising (eval_clks (events ?m)) = num_ticks (events ?m)"
    and "falling (eval_clks (events ?m)) = num_ticks (events ?m) - 1"
    by (auto simp: clock_inv_def split: if_splits)
  then show ?thesis
    by (simp add: init_def tick_eval_clks)
qed

end
